theory Spec2Isabelle
  imports Complex_Main
begin

section \<open>Exceptions and locations\<close>

text \<open>
  The exceptions that travel through \<^verbatim>\<open>utils/solver.py\<close>: \<^verbatim>\<open>RecognizeError\<close> (imported
  from the recognizer), \<^verbatim>\<open>StrategyError\<close> (declared in the file), the \<^verbatim>\<open>TypeError\<close> that
  Python raises when \<^verbatim>\<open>None\<close> or an integer is subscripted, and any other exception,
  which every handler of the file re-raises.
\<close>

datatype exn = RecognizeError | StrategyError | TypeError | OtherError

text \<open>
  \<^verbatim>\<open>tp.Coordinate\<close> is a pair of integers, \<^verbatim>\<open>tp.Scope\<close> a pair of coordinates,
  \<^verbatim>\<open>tp.Rectangle\<close> four coordinates; \<^verbatim>\<open>tp.Location\<close> is their union. \<^verbatim>\<open>get_pos\<close> tells them
  apart by \<^verbatim>\<open>len(poly) == 4\<close>, then \<^verbatim>\<open>len(poly) == 2 and isinstance(poly[0], (list, tuple))\<close>,
  then the remaining case; on values of the three shapes this is the constructor.
  An absent location is Python's \<^verbatim>\<open>None\<close>, here \<open>None\<close> of \<open>location option\<close>.
\<close>

type_synonym coordinate = "int \<times> int"

datatype location =
    Coordinate coordinate
  | Scope coordinate coordinate
  | Rectangle coordinate coordinate coordinate coordinate

text \<open>
  \<^verbatim>\<open>int(x)\<close> on a float drops the fractional part (rounds toward zero). The rates are
  Python floats, and the code rounds every product and sum to a binary float. The model
  computes the same expressions in the reals, without the rounding. The two agree
  wherever no operation rounds. In the span branch, with a weight among \<open>0\<close>, \<open>1/4\<close>,
  \<open>1/2\<close>, \<open>3/4\<close>, \<open>1\<close> and corners of magnitude at most \<open>2^51\<close>, the two products and their
  sum are multiples of \<open>1/4\<close> of magnitude at most \<open>2^51\<close>, which a binary float holds
  exactly. In the rectangle branch with both weights \<open>1/2\<close> and such corners the
  products are halves of the corners and every sum is a multiple of \<open>1/2\<close> of magnitude
  at most \<open>2^52\<close>, exact as well. At other weights the rounding can leave a sum just
  below an integer: on the span from \<open>(3,3)\<close> to \<open>(3,3)\<close> at weight \<open>0.3\<close> the code
  computes \<open>2.9999999999999996\<close> and returns \<open>(2,2)\<close>, where exact arithmetic gives
  \<open>(3,3)\<close>. The properties of the span branch below are stated for the weights and
  corners where the two agree, those of the rectangle branch for both weights \<open>1/2\<close>.
\<close>

definition py_int :: "real \<Rightarrow> int" where
  "py_int x = (if x < 0 then \<lceil>x\<rceil> else \<lfloor>x\<rfloor>)"

fun get_pos :: "location option \<Rightarrow> real \<Rightarrow> real \<Rightarrow> exn + coordinate" where
  "get_pos None x_rate y_rate = Inl RecognizeError"
| "get_pos (Some (Rectangle p0 p1 p2 p3)) x_rate y_rate =
     (let x = (real_of_int (fst p0) * (1 - x_rate) + real_of_int (fst p1) * (1 - x_rate) +
               real_of_int (fst p2) * x_rate + real_of_int (fst p3) * x_rate) / 2;
          y = (real_of_int (snd p0) * (1 - y_rate) + real_of_int (snd p3) * (1 - y_rate) +
               real_of_int (snd p1) * y_rate + real_of_int (snd p2) * y_rate) / 2
      in Inr (py_int x, py_int y))"
| "get_pos (Some (Scope p0 p1)) x_rate y_rate =
     (let x = real_of_int (fst p0) * (1 - x_rate) + real_of_int (fst p1) * x_rate;
          y = real_of_int (snd p0) * (1 - y_rate) + real_of_int (snd p1) * y_rate
      in Inr (py_int x, py_int y))"
| "get_pos (Some (Coordinate (x, y))) x_rate y_rate = Inr (x, y)"

text \<open>Notions the properties of \<open>get_pos\<close> are stated with.\<close>

definition coord_real :: "coordinate \<Rightarrow> real \<times> real" where
  "coord_real p = (real_of_int (fst p), real_of_int (snd p))"

definition midpoint :: "coordinate \<Rightarrow> coordinate \<Rightarrow> real \<times> real" where
  "midpoint p0 p1 =
     ((real_of_int (fst p0) + real_of_int (fst p1)) / 2,
      (real_of_int (snd p0) + real_of_int (snd p1)) / 2)"

text \<open>
  The corners and the weights at which the float arithmetic of \<^verbatim>\<open>get_pos\<close> is exact.
\<close>

definition float_exact_corner :: "coordinate \<Rightarrow> bool" where
  "float_exact_corner p = (\<bar>fst p\<bar> \<le> 2 ^ 51 \<and> \<bar>snd p\<bar> \<le> 2 ^ 51)"

definition quarter_weight :: "real \<Rightarrow> bool" where
  "quarter_weight r = (r = 0 \<or> r = 1 / 4 \<or> r = 1 / 2 \<or> r = 3 / 4 \<or> r = 1)"

definition axis_aligned_rectangle ::
  "coordinate \<Rightarrow> coordinate \<Rightarrow> coordinate \<Rightarrow> coordinate \<Rightarrow> bool" where
  "axis_aligned_rectangle p0 p1 p2 p3 =
     ((snd p0 = snd p1 \<and> fst p1 = fst p2 \<and> snd p2 = snd p3 \<and> fst p3 = fst p0) \<or>
      (fst p0 = fst p1 \<and> snd p1 = snd p2 \<and> fst p2 = fst p3 \<and> snd p3 = snd p0))"

definition rectangle_centroid ::
  "coordinate \<Rightarrow> coordinate \<Rightarrow> coordinate \<Rightarrow> coordinate \<Rightarrow> real \<times> real" where
  "rectangle_centroid p0 p1 p2 p3 =
     ((real_of_int (min (min (fst p0) (fst p1)) (min (fst p2) (fst p3))) +
       real_of_int (max (max (fst p0) (fst p1)) (max (fst p2) (fst p3)))) / 2,
      (real_of_int (min (min (snd p0) (snd p1)) (min (snd p2) (snd p3))) +
       real_of_int (max (max (snd p0) (snd p1)) (max (snd p2) (snd p3)))) / 2)"

section \<open>Device actions and waits\<close>

text \<open>
  What the solver does to the outside world, in the order it does it: taps, text sent to
  the device, the inertia-free swipe (its waypoints, its per-leg durations and the wait
  before the finger is lifted) and \<^verbatim>\<open>sleep(interval, rebuild)\<close>, which waits and then
  refreshes the recognizer. The list of these events is the state the model threads
  through every operation.
\<close>

datatype event =
    Tap coordinate
  | SendText string
  | SmoothSwipe "coordinate list" "int list" int
  | Sleep real bool

definition sleep :: "real \<Rightarrow> bool \<Rightarrow> event list \<Rightarrow> event list" where
  "sleep interval rebuild t = t @ [Sleep interval rebuild]"

text \<open>
  \<^verbatim>\<open>swipe_noinertia\<close>. The device's \<^verbatim>\<open>display_frames()\<close> is handed on to the transport
  unchanged and is left out of the event.
\<close>

definition swipe_noinertia ::
  "coordinate \<Rightarrow> coordinate \<Rightarrow> int \<Rightarrow> real \<Rightarrow> bool \<Rightarrow> event list \<Rightarrow> event list" where
  "swipe_noinertia start movement duration interval rebuild t =
     (let (dis, points) =
            (if fst movement = 0
             then (\<bar>snd movement\<bar>,
                   [start,
                    (fst start + 100, snd start),
                    (fst start + 100, snd start + snd movement),
                    (fst start, snd start + snd movement)])
             else (\<bar>fst movement\<bar>,
                   [start,
                    (fst start, snd start + 100),
                    (fst start + fst movement, snd start + 100),
                    (fst start + fst movement, snd start)]));
          t' = t @ [SmoothSwipe points [200, dis * duration div 100, 200] 500]
      in if interval > 0 then sleep interval rebuild t' else t')"

fun leg_durations :: "event \<Rightarrow> int list" where
  "leg_durations (SmoothSwipe points durations up_wait) = durations"
| "leg_durations e = []"

section \<open>The top-level retry loop\<close>

text \<open>
  \<^verbatim>\<open>BaseSolver.run\<close>. The abstract \<^verbatim>\<open>transition()\<close> is a parameter: \<open>transition k\<close> is what
  its \<open>k\<close>-th invocation in this run does (counted from 0), either a raised exception or
  the truth value of what it returns. The loop state is \<^verbatim>\<open>retry_times\<close>, the number of
  invocations made so far and the events issued by \<open>run\<close> itself. The loop runs forever
  on a body that keeps returning false, so it is a partial function: \<open>None\<close> is a run that
  never returns.

  A run that returns reports how the loop ended: \<open>Completed\<close> is the \<^verbatim>\<open>break\<close>,
  \<open>Exhausted\<close> the loop condition turning false, \<open>Aborted\<close> the \<^verbatim>\<open>return\<close> of the
  \<^verbatim>\<open>StrategyError\<close> handler, \<open>Propagated e\<close> the \<^verbatim>\<open>raise e\<close> of the last handler.
\<close>

datatype run_exit = Completed | Exhausted | Aborted | Propagated exn

record run_report =
  exit_kind :: run_exit
  budget_left :: int
  invocations :: nat
  issued :: "event list"

partial_function (option) run_loop ::
  "int \<Rightarrow> (nat \<Rightarrow> exn + bool) \<Rightarrow> int \<Rightarrow> nat \<Rightarrow> event list \<Rightarrow> run_report option" where
  "run_loop MAX_RETRYTIME transition retry_times calls t =
     (if retry_times > 0 then
        (case transition calls of
           Inr completed \<Rightarrow>
             if completed
             then Some \<lparr>exit_kind = Completed, budget_left = retry_times,
                        invocations = Suc calls, issued = t\<rparr>
             else run_loop MAX_RETRYTIME transition MAX_RETRYTIME (Suc calls) t
         | Inl RecognizeError \<Rightarrow>
             run_loop MAX_RETRYTIME transition (retry_times - 1) (Suc calls) (sleep 3 True t)
         | Inl StrategyError \<Rightarrow>
             Some \<lparr>exit_kind = Aborted, budget_left = retry_times,
                   invocations = Suc calls, issued = t\<rparr>
         | Inl e \<Rightarrow>
             Some \<lparr>exit_kind = Propagated e, budget_left = retry_times,
                   invocations = Suc calls, issued = t\<rparr>)
      else Some \<lparr>exit_kind = Exhausted, budget_left = retry_times,
                 invocations = calls, issued = t\<rparr>)"

definition run :: "int \<Rightarrow> (nat \<Rightarrow> exn + bool) \<Rightarrow> run_report option" where
  "run MAX_RETRYTIME transition = run_loop MAX_RETRYTIME transition MAX_RETRYTIME 0 []"

text \<open>What the caller of \<^verbatim>\<open>run()\<close> gets: an exception, or the return of \<^verbatim>\<open>None\<close>.\<close>

fun caller_sees :: "run_exit \<Rightarrow> exn + unit" where
  "caller_sees (Propagated e) = Inl e"
| "caller_sees Completed = Inr ()"
| "caller_sees Exhausted = Inr ()"
| "caller_sees Aborted = Inr ()"

section \<open>Scenes and the recognizer\<close>

text \<open>
  The class \<^verbatim>\<open>Scene\<close> of the recognizer module is a table of integer constants; the
  solver compares them with \<^verbatim>\<open>==\<close> and takes \<^verbatim>\<open>scene // 100\<close> for the band. The table
  is a parameter of the model.
\<close>

record scene_codes =
  INDEX :: int
  NAVIGATION_BAR :: int
  ANNOUNCEMENT :: int
  MATERIEL :: int
  CONFIRM :: int
  LOADING :: int
  SKIP :: int
  OPERATOR_ONGOING :: int
  OPERATOR_FINISH :: int
  OPERATOR_ELIMINATE_FINISH :: int
  DOUBLE_CONFIRM :: int
  MAIL :: int
  LOGIN_START :: int
  LOGIN_QUICKLY :: int
  LOGIN_MAIN :: int
  LOGIN_INPUT :: int
  LOGIN_ANNOUNCE :: int
  LOGIN_LOADING :: int

text \<open>
  The recognizer, the detector and the terminal are outside the file. What they answer
  depends on everything done to the device so far, so each is a function of the events
  issued up to the query: \<^verbatim>\<open>recog.get_scene()\<close>, \<^verbatim>\<open>recog.nav_button()\<close>,
  \<^verbatim>\<open>recog.find(res, ...)\<close> (by the name of the element; \<open>None\<close> when it is not found),
  \<^verbatim>\<open>recog.w\<close>, \<^verbatim>\<open>recog.h\<close>, \<^verbatim>\<open>detector.confirm(recog.img)\<close>,
  \<^verbatim>\<open>detector.announcement_close(recog.img)\<close>, and \<^verbatim>\<open>input(referent).strip()\<close>, the
  stripped line the user types at a prompt.
\<close>

record perception =
  recog_get_scene :: "event list \<Rightarrow> int"
  recog_nav_button :: "event list \<Rightarrow> location option"
  recog_find :: "string \<Rightarrow> event list \<Rightarrow> location option"
  recog_w :: "event list \<Rightarrow> int"
  recog_h :: "event list \<Rightarrow> int"
  detector_confirm :: "event list \<Rightarrow> location option"
  detector_announcement_close :: "event list \<Rightarrow> location option"
  prompt_reply :: "string \<Rightarrow> event list \<Rightarrow> string"

section \<open>Primitive operations of the solver\<close>

text \<open>
  An operation takes the events so far and returns what Python would return, or the
  exception it raises, together with the events after it.
\<close>

definition and_then ::
  "(exn + 'a) \<times> event list \<Rightarrow> ('a \<Rightarrow> event list \<Rightarrow> (exn + 'b) \<times> event list) \<Rightarrow>
   (exn + 'b) \<times> event list" where
  "and_then r f = (case r of (Inl e, t) \<Rightarrow> (Inl e, t) | (Inr a, t) \<Rightarrow> f a t)"

definition discard_value :: "(exn + 'a) \<times> event list \<Rightarrow> (exn + unit) \<times> event list" where
  "discard_value r = and_then r (\<lambda>a t. (Inr (), t))"

definition scene :: "perception \<Rightarrow> event list \<Rightarrow> int" where
  "scene env t = recog_get_scene env t"

definition find_res :: "perception \<Rightarrow> string \<Rightarrow> event list \<Rightarrow> location option" where
  "find_res env res t = recog_find env res t"

definition tap ::
  "location option \<Rightarrow> real \<Rightarrow> real \<Rightarrow> real \<Rightarrow> bool \<Rightarrow> event list \<Rightarrow> (exn + unit) \<times> event list" where
  "tap poly x_rate y_rate interval rebuild t =
     (case get_pos poly x_rate y_rate of
        Inl e \<Rightarrow> (Inl e, t)
      | Inr pos \<Rightarrow>
          (let t' = t @ [Tap pos]
           in if interval > 0 then (Inr (), sleep interval rebuild t') else (Inr (), t')))"

definition tap_element ::
  "perception \<Rightarrow> string \<Rightarrow> real \<Rightarrow> real \<Rightarrow> real \<Rightarrow> bool \<Rightarrow> bool \<Rightarrow> event list \<Rightarrow>
   (exn + bool) \<times> event list" where
  "tap_element env element_name x_rate y_rate interval rebuild detected t =
     (let element = (if element_name = ''nav_button'' then recog_nav_button env t
                     else find_res env element_name t)
      in if detected \<and> element = None then (Inr False, t)
         else and_then (tap element x_rate y_rate interval rebuild t) (\<lambda>u t'. (Inr True, t')))"

definition input ::
  "perception \<Rightarrow> string \<Rightarrow> location option \<Rightarrow> event list \<Rightarrow> (exn + unit) \<times> event list" where
  "input env referent input_area t =
     (case get_pos input_area (1 / 2) (1 / 2) of
        Inl e \<Rightarrow> (Inl e, t)
      | Inr pos \<Rightarrow>
          (let t1 = t @ [Tap pos];
               t2 = t1 @ [SendText (prompt_reply env referent t1)]
           in (Inr (), t2 @ [Tap (0, 0)])))"

definition is_login :: "perception \<Rightarrow> event list \<Rightarrow> bool" where
  "is_login env t =
     (\<not> (scene env t div 100 = 1 \<or> scene env t div 100 = 99 \<or> scene env t = - 1))"

text \<open>The tap points of a list of events, in order.\<close>

fun taps :: "event list \<Rightarrow> coordinate list" where
  "taps [] = []"
| "taps (Tap pos # es) = pos # taps es"
| "taps (e # es) = taps es"

section \<open>The login procedure\<close>

text \<open>The body of the \<^verbatim>\<open>try\<close> in \<^verbatim>\<open>login\<close>: one pass through its chain of tests.\<close>

definition login_attempt ::
  "scene_codes \<Rightarrow> perception \<Rightarrow> event list \<Rightarrow> (exn + unit) \<times> event list" where
  "login_attempt sc env t =
     (if scene env t = LOGIN_START sc then
        tap (Some (Coordinate (recog_w env t div 2, recog_h env t - 10))) 3 (1 / 2) 1 True t
      else if scene env t = LOGIN_QUICKLY sc then
        discard_value (tap_element env ''login_awake'' (1 / 2) (1 / 2) 1 True False t)
      else if scene env t = LOGIN_MAIN sc then
        discard_value (tap_element env ''login_account'' (1 / 2) (1 / 2) 1 True False t)
      else if scene env t = LOGIN_INPUT sc then
        and_then
          (case find_res env ''login_username'' t of
             None \<Rightarrow> (Inr (), t)
           | Some area \<Rightarrow> input env ''Enter username: '' (Some area) t)
          (\<lambda>u t1.
             and_then
               (case find_res env ''login_password'' t1 of
                  None \<Rightarrow> (Inr (), t1)
                | Some area \<Rightarrow> input env ''Enter password: '' (Some area) t1)
               (\<lambda>u t2.
                  discard_value (tap_element env ''login_button'' (1 / 2) (1 / 2) 1 True False t2)))
      else if scene env t = LOGIN_ANNOUNCE sc then
        discard_value (tap_element env ''login_iknow'' (1 / 2) (1 / 2) 1 True False t)
      else if scene env t = LOGIN_LOADING sc then (Inr (), sleep 3 True t)
      else if scene env t = LOADING sc then (Inr (), sleep 3 True t)
      else if scene env t = CONFIRM sc then tap (detector_confirm env t) (1 / 2) (1 / 2) 1 True t
      else (Inl RecognizeError, t))"

partial_function (option) login_loop ::
  "scene_codes \<Rightarrow> perception \<Rightarrow> int \<Rightarrow> int \<Rightarrow> event list \<Rightarrow> ((exn + unit) \<times> event list) option" where
  "login_loop sc env MAX_RETRYTIME retry_times t =
     (if retry_times \<noteq> 0 \<and> \<not> is_login env t then
        (case login_attempt sc env t of
           (Inr u, t') \<Rightarrow> login_loop sc env MAX_RETRYTIME MAX_RETRYTIME t'
         | (Inl RecognizeError, t') \<Rightarrow>
             login_loop sc env MAX_RETRYTIME (retry_times - 1) (sleep 3 True t')
         | (Inl e, t') \<Rightarrow> Some (Inl e, t'))
      else if \<not> is_login env t then Some (Inl StrategyError, t)
      else Some (Inr (), t))"

definition login ::
  "scene_codes \<Rightarrow> perception \<Rightarrow> int \<Rightarrow> event list \<Rightarrow> ((exn + unit) \<times> event list) option" where
  "login sc env MAX_RETRYTIME t = login_loop sc env MAX_RETRYTIME MAX_RETRYTIME t"

section \<open>Opening the navigation bar\<close>

text \<open>
  \<^verbatim>\<open>get_navigation\<close> returns \<^verbatim>\<open>True\<close>, \<^verbatim>\<open>False\<close> or, when the loop condition turns false
  and the function runs off its end, \<^verbatim>\<open>None\<close>: \<open>Some True\<close>, \<open>Some False\<close> and \<open>None\<close> of
  \<open>bool option\<close>. The outer \<open>option\<close> is the loop that never ends.
\<close>

partial_function (option) get_navigation_loop ::
  "scene_codes \<Rightarrow> perception \<Rightarrow> int \<Rightarrow> event list \<Rightarrow>
   ((exn + bool option) \<times> event list) option" where
  "get_navigation_loop sc env retry_times t =
     (if retry_times \<noteq> 0 then
        (if scene env t = NAVIGATION_BAR sc then Some (Inr (Some True), t)
         else
           (case tap_element env ''nav_button'' (1 / 2) (1 / 2) 1 True True t of
              (Inl e, t') \<Rightarrow> Some (Inl e, t')
            | (Inr tapped, t') \<Rightarrow>
                if \<not> tapped then Some (Inr (Some False), t')
                else get_navigation_loop sc env (retry_times - 1) t'))
      else Some (Inr None, t))"

definition get_navigation ::
  "scene_codes \<Rightarrow> perception \<Rightarrow> int \<Rightarrow> event list \<Rightarrow>
   ((exn + bool option) \<times> event list) option" where
  "get_navigation sc env MAX_RETRYTIME t = get_navigation_loop sc env MAX_RETRYTIME t"

section \<open>The return to the home scene\<close>

text \<open>
  \<^verbatim>\<open>mail[0][1]\<close> and \<^verbatim>\<open>mail[1][1]\<close>: the second components of the first two entries of
  what \<^verbatim>\<open>find('mail')\<close> returned. Subscripting \<^verbatim>\<open>None\<close>, or the integer entry of a
  coordinate, is a \<^verbatim>\<open>TypeError\<close>.
\<close>

fun mail_ys :: "location option \<Rightarrow> exn + int \<times> int" where
  "mail_ys None = Inl TypeError"
| "mail_ys (Some (Coordinate c)) = Inl TypeError"
| "mail_ys (Some (Scope p0 p1)) = Inr (snd p0, snd p1)"
| "mail_ys (Some (Rectangle p0 p1 p2 p3)) = Inr (snd p0, snd p1)"

text \<open>The body of the \<^verbatim>\<open>try\<close> in \<^verbatim>\<open>back_to_index\<close>: one pass through its chain of tests.\<close>

definition back_to_index_attempt ::
  "scene_codes \<Rightarrow> perception \<Rightarrow> int \<Rightarrow> event list \<Rightarrow> ((exn + unit) \<times> event list) option" where
  "back_to_index_attempt sc env MAX_RETRYTIME t =
     (case get_navigation sc env MAX_RETRYTIME t of
        None \<Rightarrow> None
      | Some (Inl e, t1) \<Rightarrow> Some (Inl e, t1)
      | Some (Inr nav, t1) \<Rightarrow>
          if nav = Some True then
            Some (discard_value (tap_element env ''nav_index'' (1 / 2) (1 / 2) 1 True False t1))
          else if scene env t1 = ANNOUNCEMENT sc then
            Some (tap (detector_announcement_close env t1) (1 / 2) (1 / 2) 1 True t1)
          else if scene env t1 = MATERIEL sc then
            Some (discard_value (tap_element env ''materiel_ico'' (1 / 2) (1 / 2) 1 True False t1))
          else if scene env t1 div 100 = 1 then login sc env MAX_RETRYTIME t1
          else if scene env t1 = CONFIRM sc then
            Some (tap (detector_confirm env t1) (1 / 2) (1 / 2) 1 True t1)
          else if scene env t1 = LOADING sc then Some (Inr (), sleep 3 True t1)
          else if scene env t1 = SKIP sc then
            Some (discard_value (tap_element env ''skip'' (1 / 2) (1 / 2) 1 True False t1))
          else if scene env t1 = OPERATOR_ONGOING sc then Some (Inr (), sleep 10 True t1)
          else if scene env t1 = OPERATOR_FINISH sc then
            Some (tap (Some (Coordinate (recog_w env t1 div 2, 10))) (1 / 2) (1 / 2) 1 True t1)
          else if scene env t1 = OPERATOR_ELIMINATE_FINISH sc then
            Some (tap (Some (Coordinate (recog_w env t1 div 2, 10))) (1 / 2) (1 / 2) 1 True t1)
          else if scene env t1 = DOUBLE_CONFIRM sc then
            Some (discard_value (tap_element env ''double_confirm'' (4 / 5) (1 / 2) 1 True False t1))
          else if scene env t1 = MAIL sc then
            Some (case mail_ys (find_res env ''mail'' t1) of
                    Inl e \<Rightarrow> (Inl e, t1)
                  | Inr (y0, y1) \<Rightarrow>
                      (let mid_y = (y0 + y1) div 2
                       in tap (Some (Coordinate (mid_y, mid_y))) (1 / 2) (1 / 2) 1 True t1))
          else Some (Inl RecognizeError, t1))"

partial_function (option) back_to_index_loop ::
  "scene_codes \<Rightarrow> perception \<Rightarrow> int \<Rightarrow> int \<Rightarrow> event list \<Rightarrow> ((exn + unit) \<times> event list) option" where
  "back_to_index_loop sc env MAX_RETRYTIME retry_times t =
     (if retry_times \<noteq> 0 \<and> scene env t \<noteq> INDEX sc then
        (case back_to_index_attempt sc env MAX_RETRYTIME t of
           None \<Rightarrow> None
         | Some (Inr u, t') \<Rightarrow> back_to_index_loop sc env MAX_RETRYTIME MAX_RETRYTIME t'
         | Some (Inl RecognizeError, t') \<Rightarrow>
             back_to_index_loop sc env MAX_RETRYTIME (retry_times - 1) (sleep 3 True t')
         | Some (Inl e, t') \<Rightarrow> Some (Inl e, t'))
      else if scene env t \<noteq> INDEX sc then Some (Inl StrategyError, t)
      else Some (Inr (), t))"

definition back_to_index ::
  "scene_codes \<Rightarrow> perception \<Rightarrow> int \<Rightarrow> event list \<Rightarrow> ((exn + unit) \<times> event list) option" where
  "back_to_index sc env MAX_RETRYTIME t = back_to_index_loop sc env MAX_RETRYTIME MAX_RETRYTIME t"

text \<open>
  The code of the mail scene is none of the codes \<^verbatim>\<open>back_to_index\<close> tests before it and
  lies outside the login band.
\<close>

definition mail_code_apart :: "scene_codes \<Rightarrow> bool" where
  "mail_code_apart sc =
     (MAIL sc \<noteq> ANNOUNCEMENT sc \<and> MAIL sc \<noteq> MATERIEL sc \<and> MAIL sc div 100 \<noteq> 1 \<and>
      MAIL sc \<noteq> CONFIRM sc \<and> MAIL sc \<noteq> LOADING sc \<and> MAIL sc \<noteq> SKIP sc \<and>
      MAIL sc \<noteq> OPERATOR_ONGOING sc \<and> MAIL sc \<noteq> OPERATOR_FINISH sc \<and>
      MAIL sc \<noteq> OPERATOR_ELIMINATE_FINISH sc \<and> MAIL sc \<noteq> DOUBLE_CONFIRM sc)"

section \<open>A concrete screen\<close>

text \<open>
  One table of scene codes with the login scenes in band 1, and a recognizer whose
  answers never change: a fixed scene, a fixed answer for the navigation button, a mail
  region spanning \<open>(100,100)\<close> to \<open>(300,200)\<close> and no other element. The examples below
  are evaluated on them.
\<close>

definition demo_codes :: scene_codes where
  "demo_codes =
     \<lparr>INDEX = 1, NAVIGATION_BAR = 5, ANNOUNCEMENT = 3, MATERIEL = 2, CONFIRM = 9999,
      LOADING = 9998, SKIP = 7, OPERATOR_ONGOING = 404, OPERATOR_FINISH = 405,
      OPERATOR_ELIMINATE_FINISH = 406, DOUBLE_CONFIRM = 8, MAIL = 4, LOGIN_START = 105,
      LOGIN_QUICKLY = 103, LOGIN_MAIN = 101, LOGIN_INPUT = 102, LOGIN_ANNOUNCE = 106,
      LOGIN_LOADING = 104\<rparr>"

definition still_screen :: "int \<Rightarrow> location option \<Rightarrow> perception" where
  "still_screen code nav =
     \<lparr>recog_get_scene = (\<lambda>t. code),
      recog_nav_button = (\<lambda>t. nav),
      recog_find = (\<lambda>res t. if res = ''mail'' then Some (Scope (100, 100) (300, 200)) else None),
      recog_w = (\<lambda>t. 1920),
      recog_h = (\<lambda>t. 1080),
      detector_confirm = (\<lambda>t. None),
      detector_announcement_close = (\<lambda>t. None),
      prompt_reply = (\<lambda>referent t. [])\<rparr>"

section \<open>Properties of the geometry resolver\<close>

lemma py_int_of_int: "py_int (real_of_int n) = n"
  by (simp add: py_int_def)

lemma py_int_close: "\<bar>real_of_int (py_int x) - x\<bar> < 1"
  unfolding py_int_def by (cases "x < 0") (simp_all, linarith+)

lemma py_int_half_even:
  assumes "even n"
  shows "real_of_int (py_int (real_of_int n / 2)) = real_of_int n / 2"
proof -
  from assms obtain k where k: "n = 2 * k" by (elim evenE)
  have "real_of_int n / 2 = real_of_int k" by (simp add: k)
  then show ?thesis by (simp add: py_int_of_int)
qed

lemma py_int_half_odd:
  assumes "odd n"
  shows "real_of_int (py_int (real_of_int n / 2)) \<noteq> real_of_int n / 2"
proof
  assume "real_of_int (py_int (real_of_int n / 2)) = real_of_int n / 2"
  then have "real_of_int (2 * py_int (real_of_int n / 2)) = real_of_int n" by simp
  then have "2 * py_int (real_of_int n / 2) = n" by (simp only: of_int_eq_iff)
  then have "even n" by (metis dvd_triv_left)
  with assms show False by simp
qed

text \<open>
  C4. For all anchor weights, \<open>get_pos\<close> applied to an absent location raises
  \<^verbatim>\<open>RecognizeError\<close>.
\<close>

theorem get_pos_None_raises: "get_pos None x_rate y_rate = Inl RecognizeError"
  by simp

lemma get_pos_scope_half:
  "get_pos (Some (Scope p0 p1)) (1 / 2) (1 / 2) =
     Inr (py_int (fst (midpoint p0 p1)), py_int (snd (midpoint p0 p1)))"
  by (simp add: midpoint_def add_divide_distrib)

lemma min_max_swapped:
  "real_of_int (min (min a b) (min b a)) + real_of_int (max (max a b) (max b a)) =
   real_of_int a + real_of_int b"
  by (simp add: min_def max_def)

lemma min_max_doubled:
  "real_of_int (min (min a a) (min b b)) + real_of_int (max (max a a) (max b b)) =
   real_of_int a + real_of_int b"
  by (simp add: min_def max_def)

lemma rectangle_centroid_mean:
  assumes "axis_aligned_rectangle p0 p1 p2 p3"
  shows "rectangle_centroid p0 p1 p2 p3 =
     ((real_of_int (fst p0) + real_of_int (fst p1) + real_of_int (fst p2) + real_of_int (fst p3)) / 4,
      (real_of_int (snd p0) + real_of_int (snd p1) + real_of_int (snd p2) + real_of_int (snd p3)) / 4)"
proof -
  consider
    (rows) "snd p0 = snd p1" "fst p1 = fst p2" "snd p2 = snd p3" "fst p3 = fst p0"
  | (cols) "fst p0 = fst p1" "snd p1 = snd p2" "fst p2 = fst p3" "snd p3 = snd p0"
    using assms unfolding axis_aligned_rectangle_def by blast
  then show ?thesis
  proof cases
    case rows
    have x: "real_of_int (min (min (fst p0) (fst p1)) (min (fst p2) (fst p3))) +
             real_of_int (max (max (fst p0) (fst p1)) (max (fst p2) (fst p3))) =
             real_of_int (fst p0) + real_of_int (fst p1)"
      unfolding rows(4) rows(2) [symmetric] by (rule min_max_swapped)
    have y: "real_of_int (min (min (snd p0) (snd p1)) (min (snd p2) (snd p3))) +
             real_of_int (max (max (snd p0) (snd p1)) (max (snd p2) (snd p3))) =
             real_of_int (snd p1) + real_of_int (snd p3)"
      unfolding rows(1) rows(3) by (rule min_max_doubled)
    show ?thesis
      unfolding rectangle_centroid_def x y
      by (simp add: rows)
  next
    case cols
    have x: "real_of_int (min (min (fst p0) (fst p1)) (min (fst p2) (fst p3))) +
             real_of_int (max (max (fst p0) (fst p1)) (max (fst p2) (fst p3))) =
             real_of_int (fst p1) + real_of_int (fst p3)"
      unfolding cols(1) cols(3) by (rule min_max_doubled)
    have y: "real_of_int (min (min (snd p0) (snd p1)) (min (snd p2) (snd p3))) +
             real_of_int (max (max (snd p0) (snd p1)) (max (snd p2) (snd p3))) =
             real_of_int (snd p0) + real_of_int (snd p1)"
      unfolding cols(4) cols(2) [symmetric] by (rule min_max_swapped)
    show ?thesis
      unfolding rectangle_centroid_def x y
      by (simp add: cols)
  qed
qed

lemma get_pos_rectangle_half:
  "get_pos (Some (Rectangle p0 p1 p2 p3)) (1 / 2) (1 / 2) =
     Inr (py_int ((real_of_int (fst p0) + real_of_int (fst p1) + real_of_int (fst p2) + real_of_int (fst p3)) / 4),
          py_int ((real_of_int (snd p0) + real_of_int (snd p1) + real_of_int (snd p2) + real_of_int (snd p3)) / 4))"
proof -
  have x: "(real_of_int (fst p0) * (1 - 1 / 2) + real_of_int (fst p1) * (1 - 1 / 2) +
            real_of_int (fst p2) * (1 / 2) + real_of_int (fst p3) * (1 / 2)) / 2 =
           (real_of_int (fst p0) + real_of_int (fst p1) + real_of_int (fst p2) + real_of_int (fst p3)) / 4"
    by (simp add: field_simps)
  have y: "(real_of_int (snd p0) * (1 - 1 / 2) + real_of_int (snd p3) * (1 - 1 / 2) +
            real_of_int (snd p1) * (1 / 2) + real_of_int (snd p2) * (1 / 2)) / 2 =
           (real_of_int (snd p0) + real_of_int (snd p1) + real_of_int (snd p2) + real_of_int (snd p3)) / 4"
    by (simp add: field_simps)
  show ?thesis
    unfolding get_pos.simps Let_def x y ..
qed

text \<open>
  C5, as the code has it. For every \<open>Scope\<close> with corners of magnitude at most \<open>2^51\<close>
  and weights among \<open>0\<close>, \<open>1/4\<close>, \<open>1/2\<close>, \<open>3/4\<close>, \<open>1\<close> (where the code's float arithmetic
  is exact), \<open>get_pos\<close> returns the per-axis linear interpolation, each axis truncated
  toward zero; at weight \<open>0\<close> that is the first corner, at weight \<open>1\<close> the second. With
  both weights \<open>1/2\<close> the result is the midpoint of the two corners truncated toward zero
  per axis, and it is the exact midpoint if and only if both coordinate sums of the
  corners are even.
\<close>

theorem get_pos_scope_interpolation:
  assumes "float_exact_corner p0" and "float_exact_corner p1"
    and "quarter_weight x_rate" and "quarter_weight y_rate"
  shows "get_pos (Some (Scope p0 p1)) x_rate y_rate =
       Inr (py_int (real_of_int (fst p0) * (1 - x_rate) + real_of_int (fst p1) * x_rate),
            py_int (real_of_int (snd p0) * (1 - y_rate) + real_of_int (snd p1) * y_rate)) \<and>
     get_pos (Some (Scope p0 p1)) 0 0 = Inr p0 \<and>
     get_pos (Some (Scope p0 p1)) 1 1 = Inr p1 \<and>
     get_pos (Some (Scope p0 p1)) (1 / 2) (1 / 2) =
       Inr (py_int (fst (midpoint p0 p1)), py_int (snd (midpoint p0 p1))) \<and>
     ((\<exists>c. get_pos (Some (Scope p0 p1)) (1 / 2) (1 / 2) = Inr c \<and> coord_real c = midpoint p0 p1)
        \<longleftrightarrow> even (fst p0 + fst p1) \<and> even (snd p0 + snd p1))"
proof (intro conjI)
  show "get_pos (Some (Scope p0 p1)) x_rate y_rate =
     Inr (py_int (real_of_int (fst p0) * (1 - x_rate) + real_of_int (fst p1) * x_rate),
          py_int (real_of_int (snd p0) * (1 - y_rate) + real_of_int (snd p1) * y_rate))"
    by simp
  show "get_pos (Some (Scope p0 p1)) 0 0 = Inr p0"
    by (simp add: py_int_of_int)
  show "get_pos (Some (Scope p0 p1)) 1 1 = Inr p1"
    by (simp add: py_int_of_int)
  show "get_pos (Some (Scope p0 p1)) (1 / 2) (1 / 2) =
     Inr (py_int (fst (midpoint p0 p1)), py_int (snd (midpoint p0 p1)))"
    by (rule get_pos_scope_half)
  have mx: "fst (midpoint p0 p1) = real_of_int (fst p0 + fst p1) / 2"
    and my: "snd (midpoint p0 p1) = real_of_int (snd p0 + snd p1) / 2"
    by (simp_all add: midpoint_def)
  have ex: "real_of_int (py_int (fst (midpoint p0 p1))) = fst (midpoint p0 p1)
      \<longleftrightarrow> even (fst p0 + fst p1)"
    unfolding mx using py_int_half_even py_int_half_odd by blast
  have ey: "real_of_int (py_int (snd (midpoint p0 p1))) = snd (midpoint p0 p1)
      \<longleftrightarrow> even (snd p0 + snd p1)"
    unfolding my using py_int_half_even py_int_half_odd by blast
  show "(\<exists>c. get_pos (Some (Scope p0 p1)) (1 / 2) (1 / 2) = Inr c \<and> coord_real c = midpoint p0 p1)
      \<longleftrightarrow> even (fst p0 + fst p1) \<and> even (snd p0 + snd p1)"
    unfolding get_pos_scope_half using ex ey
    by (auto simp: coord_real_def prod_eq_iff)
qed

theorem get_pos_scope_interpolation_witness:
  "float_exact_corner (0, 0) \<and> float_exact_corner (10, 20) \<and>
   quarter_weight (1 / 4) \<and> quarter_weight (3 / 4) \<and>
   get_pos (Some (Scope (0, 0) (10, 20))) (1 / 4) (3 / 4) = Inr (2, 15) \<and>
   get_pos (Some (Scope (0, 0) (10, 20))) 0 0 = Inr (0, 0) \<and>
   get_pos (Some (Scope (0, 0) (10, 20))) 1 1 = Inr (10, 20) \<and>
   get_pos (Some (Scope (0, 0) (10, 20))) (1 / 2) (1 / 2) = Inr (5, 10) \<and>
   coord_real (5, 10) = midpoint (0, 0) (10, 20)"
proof -
  have c0: "float_exact_corner (0, 0)" and c1: "float_exact_corner (10, 20)"
    by (simp_all add: float_exact_corner_def)
  have w0: "quarter_weight (1 / 4)" and w1: "quarter_weight (3 / 4)"
    by (simp_all add: quarter_weight_def)
  show ?thesis
    using c0 c1 w0 w1 get_pos_scope_interpolation [OF c0 c1 w0 w1]
    by (simp add: py_int_def midpoint_def coord_real_def)
qed

text \<open>
  The claim as the specification words it, that with both weights \<open>1/2\<close> the result is the
  exact midpoint, fails on the span from \<open>(0,0)\<close> to \<open>(1,1)\<close>: the result is \<open>(0,0)\<close>, the
  midpoint is \<open>(1/2,1/2)\<close>.
\<close>

theorem get_pos_scope_midpoint_counterexample:
  "get_pos (Some (Scope (0, 0) (1, 1))) (1 / 2) (1 / 2) = Inr (0, 0) \<and>
   coord_real (0, 0) \<noteq> midpoint (0, 0) (1, 1)"
  by (simp add: py_int_def midpoint_def coord_real_def)

text \<open>
  C6. For every \<open>Rectangle\<close> (four points) whose consecutive corners alternate between
  sharing a row and sharing a column, \<open>get_pos\<close> with both weights \<open>1/2\<close> returns a point
  less than one pixel away, on each axis, from the centre of the rectangle.
\<close>

theorem get_pos_rectangle_centroid:
  assumes "axis_aligned_rectangle p0 p1 p2 p3"
  shows "\<exists>c. get_pos (Some (Rectangle p0 p1 p2 p3)) (1 / 2) (1 / 2) = Inr c \<and>
     \<bar>fst (coord_real c) - fst (rectangle_centroid p0 p1 p2 p3)\<bar> < 1 \<and>
     \<bar>snd (coord_real c) - snd (rectangle_centroid p0 p1 p2 p3)\<bar> < 1"
  unfolding get_pos_rectangle_half rectangle_centroid_mean [OF assms]
  by (simp add: coord_real_def py_int_close)

theorem get_pos_rectangle_centroid_witness:
  "axis_aligned_rectangle (10, 20) (15, 20) (15, 27) (10, 27) \<and>
   get_pos (Some (Rectangle (10, 20) (15, 20) (15, 27) (10, 27))) (1 / 2) (1 / 2) = Inr (12, 23) \<and>
   rectangle_centroid (10, 20) (15, 20) (15, 27) (10, 27) = (25 / 2, 47 / 2)"
proof -
  have h: "axis_aligned_rectangle (10, 20) (15, 20) (15, 27) (10, 27)"
    by (simp add: axis_aligned_rectangle_def)
  show ?thesis
    using h get_pos_rectangle_centroid [OF h]
    by (simp add: py_int_def rectangle_centroid_def)
qed

section \<open>Properties of the top-level retry loop\<close>

lemma run_loop_all_recognize_errors:
  assumes "\<forall>k. transition k = Inl RecognizeError"
  shows "run_loop M transition (int n) calls t =
     Some \<lparr>exit_kind = Exhausted, budget_left = 0, invocations = calls + n,
           issued = t @ replicate n (Sleep 3 True)\<rparr>"
proof (induction n arbitrary: calls t)
  case 0
  show ?case by (subst run_loop.simps) simp
next
  case (Suc n)
  have step: "run_loop M transition (int (Suc n)) calls t =
      run_loop M transition (int n) (Suc calls) (sleep 3 True t)"
    by (subst run_loop.simps) (simp add: assms)
  show ?case
    unfolding step Suc.IH
    by (simp add: sleep_def replicate_app_Cons_same)
qed

lemma run_loop_recognize_errors_then_done:
  assumes "\<forall>k<n. transition (calls + k) = Inl RecognizeError"
    and "transition (calls + n) = Inr True"
    and "int n < r"
  shows "run_loop M transition r calls t =
     Some \<lparr>exit_kind = Completed, budget_left = r - int n, invocations = Suc (calls + n),
           issued = t @ replicate n (Sleep 3 True)\<rparr>"
  using assms
proof (induction n arbitrary: calls t r)
  case 0
  then show ?case by (subst run_loop.simps) simp
next
  case (Suc n)
  from Suc.prems(1) have first: "transition calls = Inl RecognizeError"
    by (metis add.right_neutral zero_less_Suc)
  have rest: "\<forall>k<n. transition (Suc calls + k) = Inl RecognizeError"
    using Suc.prems(1) by (metis Suc_less_eq add_Suc_right add_Suc)
  have last: "transition (Suc calls + n) = Inr True"
    using Suc.prems(2) by simp
  have budget: "int n < r - 1"
    using Suc.prems(3) by simp
  have step: "run_loop M transition r calls t =
      run_loop M transition (r - 1) (Suc calls) (sleep 3 True t)"
    using Suc.prems(3) by (subst run_loop.simps) (simp add: first)
  show ?case
    unfolding step Suc.IH [OF rest last budget]
    by (simp add: sleep_def replicate_app_Cons_same)
qed

text \<open>
  C1. If \<^verbatim>\<open>transition()\<close> raises \<^verbatim>\<open>StrategyError\<close>, the loop of \<open>run\<close> stops at once:
  no further invocation, no wait, the retry budget untouched, and the caller sees a
  normal return.
\<close>

theorem run_aborts_on_StrategyError:
  assumes "0 < retry_times"
    and "transition calls = Inl StrategyError"
  shows "run_loop MAX_RETRYTIME transition retry_times calls t =
       Some \<lparr>exit_kind = Aborted, budget_left = retry_times,
             invocations = Suc calls, issued = t\<rparr> \<and>
     caller_sees Aborted = Inr ()"
  using assms by (subst run_loop.simps) simp

theorem run_aborts_on_StrategyError_witness:
  "run_loop 3 (\<lambda>k. if k < 2 then Inr False else Inl StrategyError) 3 2 [] =
     Some \<lparr>exit_kind = Aborted, budget_left = 3, invocations = 3, issued = []\<rparr> \<and>
   caller_sees Aborted = Inr ()"
  using run_aborts_on_StrategyError
    [of 3 "\<lambda>k. if k < 2 then Inr False else Inl StrategyError" 2 3 "[]"]
  by simp

text \<open>
  C2. For every retry budget \<open>B \<ge> 1\<close>, on a body that raises \<^verbatim>\<open>RecognizeError\<close> at every
  attempt \<open>run\<close> invokes the body exactly \<open>B\<close> times, waits after each, ends with the
  budget at 0 and returns normally.
\<close>

theorem run_exhausts_after_budget:
  assumes "1 \<le> B"
    and "\<forall>k. transition k = Inl RecognizeError"
  shows "run B transition =
       Some \<lparr>exit_kind = Exhausted, budget_left = 0, invocations = nat B,
             issued = replicate (nat B) (Sleep 3 True)\<rparr> \<and>
     caller_sees Exhausted = Inr ()"
proof -
  from assms(1) have B: "B = int (nat B)" by simp
  have "run_loop B transition (int (nat B)) 0 [] =
      Some \<lparr>exit_kind = Exhausted, budget_left = 0, invocations = 0 + nat B,
            issued = [] @ replicate (nat B) (Sleep 3 True)\<rparr>"
    by (rule run_loop_all_recognize_errors [OF assms(2)])
  then show ?thesis
    unfolding run_def using B by simp
qed

theorem run_exhausts_after_budget_witness:
  "run 3 (\<lambda>k. Inl RecognizeError) =
     Some \<lparr>exit_kind = Exhausted, budget_left = 0, invocations = 3,
           issued = [Sleep 3 True, Sleep 3 True, Sleep 3 True]\<rparr> \<and>
   caller_sees Exhausted = Inr ()"
  using run_exhausts_after_budget [of 3 "\<lambda>k. Inl RecognizeError"]
  by (simp add: numeral_3_eq_3)

text \<open>
  C3. For every \<open>N\<close> and budget \<open>B > N\<close>, on a body that raises \<^verbatim>\<open>RecognizeError\<close> at its
  first \<open>N\<close> invocations and then returns true, \<open>run\<close> completes after \<open>N + 1\<close>
  invocations with \<open>B - N\<close> of the budget left. And whenever an attempt returns false,
  the loop goes on with the budget back at \<open>B\<close>.
\<close>

theorem run_completes_after_retries:
  assumes "int N < B"
    and "\<forall>k<N. transition k = Inl RecognizeError"
    and "transition N = Inr True"
    and "0 < retry_times"
    and "body calls = Inr False"
  shows "run B transition =
       Some \<lparr>exit_kind = Completed, budget_left = B - int N, invocations = Suc N,
             issued = replicate N (Sleep 3 True)\<rparr> \<and>
     caller_sees Completed = Inr () \<and>
     run_loop B body retry_times calls t = run_loop B body B (Suc calls) t"
proof (intro conjI)
  have "run_loop B transition B 0 [] =
      Some \<lparr>exit_kind = Completed, budget_left = B - int N, invocations = Suc (0 + N),
            issued = [] @ replicate N (Sleep 3 True)\<rparr>"
    by (rule run_loop_recognize_errors_then_done) (simp_all add: assms)
  then show "run B transition =
       Some \<lparr>exit_kind = Completed, budget_left = B - int N, invocations = Suc N,
             issued = replicate N (Sleep 3 True)\<rparr>"
    unfolding run_def by simp
  show "caller_sees Completed = Inr ()" by simp
  show "run_loop B body retry_times calls t = run_loop B body B (Suc calls) t"
    using assms(4,5) by (subst run_loop.simps) simp
qed

theorem run_completes_after_retries_witness:
  "run 5 (\<lambda>k. if k < 2 then Inl RecognizeError else Inr True) =
     Some \<lparr>exit_kind = Completed, budget_left = 3, invocations = 3,
           issued = [Sleep 3 True, Sleep 3 True]\<rparr> \<and>
   run_loop 5 (\<lambda>k. Inr (k = 1)) 2 0 [] = run_loop 5 (\<lambda>k. Inr (k = 1)) 5 1 []"
  using run_completes_after_retries
    [of 2 5 "\<lambda>k. if k < 2 then Inl RecognizeError else Inr True" 2 "\<lambda>k. Inr (k = 1)" 0 "[]"]
  by (simp add: numeral_2_eq_2)

section \<open>Properties of the inertia-free swipe\<close>

text \<open>
  C7, as the code has it. \<open>swipe_noinertia\<close> with a purely vertical movement builds a path
  of four points whose first and last legs leave and rejoin the movement axis at a fixed
  100 units, with leg durations 200, \<open>distance * duration div 100\<close> and 200, and a wait of
  500 before the release. For a movement of magnitude 200 and duration 100 the middle
  leg takes 200.
\<close>

theorem swipe_noinertia_vertical:
  "swipe_noinertia (sx, sy) (0, my) duration interval rebuild t =
     t @ SmoothSwipe [(sx, sy), (sx + 100, sy), (sx + 100, sy + my), (sx, sy + my)]
           [200, \<bar>my\<bar> * duration div 100, 200] 500 #
         (if 0 < interval then [Sleep interval rebuild] else []) \<and>
   (\<bar>my\<bar> = 200 \<longrightarrow>
     swipe_noinertia (sx, sy) (0, my) 100 interval rebuild t =
       t @ SmoothSwipe [(sx, sy), (sx + 100, sy), (sx + 100, sy + my), (sx, sy + my)]
             [200, 200, 200] 500 #
           (if 0 < interval then [Sleep interval rebuild] else []))"
  by (simp add: swipe_noinertia_def sleep_def)

theorem swipe_noinertia_vertical_witness:
  "swipe_noinertia (300, 500) (0, - 200) 100 1 False [] =
     [SmoothSwipe [(300, 500), (400, 500), (400, 300), (300, 300)] [200, 200, 200] 500,
      Sleep 1 False]"
  using swipe_noinertia_vertical [of 300 500 "- 200" 100 1 False "[]"]
  by simp

text \<open>
  The middle leg of that swipe does not take 400: for the movement \<open>(0, 200)\<close> and
  duration 100 the three durations are 200, 200 and 200.
\<close>

theorem swipe_noinertia_middle_leg_counterexample:
  "swipe_noinertia (0, 0) (0, 200) 100 1 False [] =
     [SmoothSwipe [(0, 0), (100, 0), (100, 200), (0, 200)] [200, 200, 200] 500,
      Sleep 1 False] \<and>
   leg_durations (hd (swipe_noinertia (0, 0) (0, 200) 100 1 False [])) ! 1 \<noteq> 400"
  by (simp add: swipe_noinertia_def sleep_def)

section \<open>Properties of the navigation procedures\<close>

lemma taps_append: "taps (xs @ ys) = taps xs @ taps ys"
  by (induction xs rule: taps.induct) simp_all

lemma get_pos_Some: "\<exists>pos. get_pos (Some l) x_rate y_rate = Inr pos"
  by (cases "(Some l, x_rate, y_rate)" rule: get_pos.cases) (simp_all add: Let_def)

lemma tap_at:
  assumes "get_pos poly x_rate y_rate = Inr pos"
  shows "tap poly x_rate y_rate 1 True t = (Inr (), t @ [Tap pos, Sleep 1 True])"
  unfolding tap_def assms by (simp add: sleep_def)

lemma tap_element_nav_found:
  assumes "recog_nav_button env t = Some l"
    and "get_pos (Some l) (1 / 2) (1 / 2) = Inr pos"
  shows "tap_element env ''nav_button'' (1 / 2) (1 / 2) 1 True True t =
     (Inr True, t @ [Tap pos, Sleep 1 True])"
  unfolding tap_element_def Let_def
  apply (simp only: if_True assms(1) refl)
  apply (simp only: tap_at [OF assms(2)] and_then_def)
  apply simp
  done

lemma get_navigation_loop_runs_out:
  assumes "\<forall>t. scene env t \<noteq> NAVIGATION_BAR sc"
    and "\<forall>t. recog_nav_button env t \<noteq> None"
  shows "\<exists>t'. get_navigation_loop sc env (int n) t = Some (Inr None, t') \<and>
     length (taps t') = length (taps t) + n"
proof (induction n arbitrary: t)
  case 0
  have "get_navigation_loop sc env (int 0) t = Some (Inr None, t)"
    by (subst get_navigation_loop.simps) simp
  then show ?case by simp
next
  case (Suc n)
  have "recog_nav_button env t \<noteq> None"
    using assms(2) by (rule spec)
  then have "\<exists>l. recog_nav_button env t = Some l"
    by (cases "recog_nav_button env t") simp_all
  then obtain l where l: "recog_nav_button env t = Some l" ..
  have "\<exists>pos. get_pos (Some l) (1 / 2) (1 / 2) = Inr pos"
    by (rule get_pos_Some)
  then obtain pos where pos: "get_pos (Some l) (1 / 2) (1 / 2) = Inr pos" ..
  have tapped:
    "tap_element env ''nav_button'' (1 / 2) (1 / 2) 1 True True t =
       (Inr True, t @ [Tap pos, Sleep 1 True])"
    by (rule tap_element_nav_found [OF l pos])
  have away: "scene env t \<noteq> NAVIGATION_BAR sc"
    using assms(1) by (rule spec)
  have budget: "int (Suc n) \<noteq> 0" "int (Suc n) - 1 = int n"
    by simp_all
  have step: "get_navigation_loop sc env (int (Suc n)) t =
      get_navigation_loop sc env (int n) (t @ [Tap pos, Sleep 1 True])"
    apply (subst get_navigation_loop.simps)
    apply (simp only: tapped away budget if_True if_False prod.case sum.case not_True_eq_False not_False_eq_True)
    done
  have "\<exists>t'. get_navigation_loop sc env (int n) (t @ [Tap pos, Sleep 1 True]) =
        Some (Inr None, t') \<and>
      length (taps t') = length (taps (t @ [Tap pos, Sleep 1 True])) + n"
    by (rule Suc.IH)
  then obtain t' where
    r: "get_navigation_loop sc env (int n) (t @ [Tap pos, Sleep 1 True]) = Some (Inr None, t')"
    and c: "length (taps t') = length (taps (t @ [Tap pos, Sleep 1 True])) + n"
    by (elim exE conjE)
  have "get_navigation_loop sc env (int (Suc n)) t = Some (Inr None, t') \<and>
      length (taps t') = length (taps t) + Suc n"
    unfolding step r c by (simp add: taps_append)
  then show ?case ..
qed


lemma demo_get_navigation:
  "get_navigation demo_codes (still_screen 4 None) 3 [] = Some (Inr (Some False), [])"
  unfolding get_navigation_def
  by (subst get_navigation_loop.simps)
     (simp add: still_screen_def demo_codes_def scene_def tap_element_def)

text \<open>
  C8, as the code has it. In one pass of the loop of \<open>back_to_index\<close>, when
  \<open>get_navigation\<close> has not found the navigation bar and the scene is the mail overlay,
  the procedure looks up the mail region, takes the floor of the mean of the \<open>y\<close> values
  of its two corners and taps once, at the point that has this value as its \<open>x\<close> and as
  its \<open>y\<close>, then waits one second; no exception is raised.
\<close>

theorem back_to_index_mail_tap:
  assumes "get_navigation sc env MAX_RETRYTIME t = Some (Inr nav, t1)"
    and "nav \<noteq> Some True"
    and "scene env t1 = MAIL sc"
    and "mail_code_apart sc"
    and "find_res env ''mail'' t1 = Some (Scope p0 p1)"
  shows "back_to_index_attempt sc env MAX_RETRYTIME t =
     Some (Inr (), t1 @ [Tap ((snd p0 + snd p1) div 2, (snd p0 + snd p1) div 2), Sleep 1 True])"
  using assms
  by (simp add: back_to_index_attempt_def mail_code_apart_def tap_def sleep_def Let_def)

theorem back_to_index_mail_tap_witness:
  "back_to_index_attempt demo_codes (still_screen 4 None) 3 [] =
     Some (Inr (), [Tap (150, 150), Sleep 1 True])"
  using back_to_index_mail_tap
    [of demo_codes "still_screen 4 None" 3 "[]" "Some False" "[]" "(100, 100)" "(300, 200)"]
    demo_get_navigation
  by (simp add: still_screen_def demo_codes_def scene_def find_res_def mail_code_apart_def)


text \<open>
  The pass through the mail branch issues one tap, not two: on the concrete screen with
  the mail scene and no navigation button the events of the pass are the tap at
  \<open>(150,150)\<close> and the wait after it.
\<close>

theorem back_to_index_mail_one_tap_counterexample:
  "back_to_index_attempt demo_codes (still_screen 4 None) 3 [] =
     Some (Inr (), [Tap (150, 150), Sleep 1 True]) \<and>
   map_option (\<lambda>r. length (taps (snd r)))
     (back_to_index_attempt demo_codes (still_screen 4 None) 3 []) \<noteq> Some 2"
proof -
  have "back_to_index_attempt demo_codes (still_screen 4 None) 3 [] =
     Some (Inr (), [Tap (150, 150), Sleep 1 True])"
    unfolding back_to_index_attempt_def demo_get_navigation
    by (simp add: still_screen_def demo_codes_def scene_def find_res_def tap_def sleep_def)
  then show ?thesis by simp
qed

text \<open>
  C9. If the scene is already the home scene when \<open>back_to_index\<close> is called, it returns
  normally and issues no event at all: no tap, no swipe, no wait.
\<close>

theorem back_to_index_at_home:
  assumes "scene env t = INDEX sc"
  shows "back_to_index sc env MAX_RETRYTIME t = Some (Inr (), t)"
  unfolding back_to_index_def
  by (subst back_to_index_loop.simps) (simp add: assms)

theorem back_to_index_at_home_witness:
  "back_to_index demo_codes (still_screen 1 None) 3 [] = Some (Inr (), [])"
proof -
  have "scene (still_screen 1 None) [] = INDEX demo_codes"
    by (simp add: still_screen_def demo_codes_def scene_def)
  then show ?thesis
    by (rule back_to_index_at_home)
qed

text \<open>
  C10. If the scene never is the navigation bar and the navigation button is found
  every time, \<open>get_navigation\<close> with a retry budget \<open>B \<ge> 0\<close> taps the button \<open>B\<close> times and
  then returns Python's \<^verbatim>\<open>None\<close>, neither \<^verbatim>\<open>True\<close> nor \<^verbatim>\<open>False\<close>.
\<close>

theorem get_navigation_returns_None:
  assumes "0 \<le> B"
    and "\<forall>t. scene env t \<noteq> NAVIGATION_BAR sc"
    and "\<forall>t. recog_nav_button env t \<noteq> None"
  shows "\<exists>t'. get_navigation sc env B t = Some (Inr None, t') \<and>
     length (taps t') = length (taps t) + nat B"
proof -
  from assms(1) have B: "int (nat B) = B" by simp
  have "\<exists>t'. get_navigation_loop sc env (int (nat B)) t = Some (Inr None, t') \<and>
     length (taps t') = length (taps t) + nat B"
    by (rule get_navigation_loop_runs_out [OF assms(2,3)])
  then show ?thesis
    unfolding get_navigation_def B .
qed

theorem get_navigation_returns_None_witness:
  "\<exists>t'. get_navigation demo_codes (still_screen 4 (Some (Coordinate (30, 40)))) 3 [] =
       Some (Inr None, t') \<and> length (taps t') = length (taps []) + nat 3"
proof -
  have a: "(0::int) \<le> 3" by simp
  have b: "\<forall>t. scene (still_screen 4 (Some (Coordinate (30, 40)))) t \<noteq> NAVIGATION_BAR demo_codes"
    by (simp add: still_screen_def demo_codes_def scene_def)
  have c: "\<forall>t. recog_nav_button (still_screen 4 (Some (Coordinate (30, 40)))) t \<noteq> None"
    by (simp add: still_screen_def)
  show ?thesis
    by (rule get_navigation_returns_None [OF a b c])
qed


end
